theory Spec2Isabelle
  imports Main
begin

section \<open>The HTTP gateway of \<^verbatim>\<open>http_server.py\<close>\<close>

text \<open>
  The module \<^verbatim>\<open>src/mcp_server_bigquery/http_server.py\<close> is a FastAPI application
  with five routes in front of a \<^verbatim>\<open>BigQueryDatabase\<close> object. The model below follows
  the module function by function. Python strings are \<open>string\<close> (characters up to
  code point 255); a raised exception is the \<open>Inl\<close> branch of a sum; the module-level
  variable \<^verbatim>\<open>db\<close> is passed to every function that reads it and returned by the one
  that writes it; every call of a method of \<^verbatim>\<open>db\<close> is recorded in a trace, so that
  "the database was not reached" is a statement about the model. The handlers and
  their dependency are modelled first, on a validated request (\<open>serve\<close>); the stages
  of the framework around them, from the raw header and body to the encoded response,
  come after (\<open>handle_request\<close>).
\<close>

subsection \<open>Exceptions\<close>

text \<open>
  The exceptions the module raises or catches. \<open>HTTPException\<close> carries
  \<^verbatim>\<open>status_code\<close> and \<^verbatim>\<open>detail\<close>; the other constructors carry the text that
  \<^verbatim>\<open>str(e)\<close> returns. \<open>OtherException\<close> stands for any further subclass of
  \<^verbatim>\<open>Exception\<close>, which is what a method of \<^verbatim>\<open>db\<close> raises.
\<close>

datatype exn =
    HTTPException nat string
  | ValueError string
  | RecursionError string
  | OtherException string

subsection \<open>Request and response models\<close>

datatype HealthResponse =
  HealthResponse (healthy: bool) (version: string) (service: string)

datatype 'row QueryResponse =
  QueryResponse (success: bool) (data: "'row list") (row_count: int) (error: "string option")

datatype TablesResponse =
  TablesResponse (success: bool) (tables: "string list") (count: int) (error: "string option")

datatype 'row TableSchemaResponse =
  TableSchemaResponse (success: bool) (ddl: "'row list") (error: "string option")

text \<open>
  \<^verbatim>\<open>HealthResponse(healthy=True)\<close>: the two other fields take the defaults of the class.
\<close>

definition HealthResponse_of :: "bool \<Rightarrow> HealthResponse" where
  "HealthResponse_of h = HealthResponse h ''1.0.0'' ''BigQuery API for ChatGPT Connector''"

subsection \<open>Collaborators\<close>

text \<open>
  What the module imports and does not define: the class \<^verbatim>\<open>BigQueryDatabase\<close> of
  \<^verbatim>\<open>server.py\<close> (its constructor and the three methods the handlers call, each of which
  returns or raises), the text that \<^verbatim>\<open>str\<close> gives for an \<^verbatim>\<open>HTTPException\<close>, the
  status with which the \<^verbatim>\<open>HTTPBearer\<close> scheme of the framework answers a request that
  carries no bearer credential (403 or 401, by the version of the framework), the
  status and detail with which it answers a header of another scheme, and the JSON
  encoder of the framework, which renders a row of a response or raises.
  An instance of \<^verbatim>\<open>BigQueryDatabase\<close> is a value of type \<open>'db\<close>; the class defines
  neither \<^verbatim>\<open>__bool__\<close> nor \<^verbatim>\<open>__len__\<close>, so \<^verbatim>\<open>not db\<close> holds exactly when
  \<^verbatim>\<open>db\<close> is \<^verbatim>\<open>None\<close>.
\<close>

record ('db, 'row) collaborators =
  db_init :: "string \<Rightarrow> string \<Rightarrow> string option \<Rightarrow> string list \<Rightarrow> exn + 'db"
  db_execute_query :: "'db \<Rightarrow> string \<Rightarrow> exn + 'row list"
  db_list_tables :: "'db \<Rightarrow> exn + string list"
  db_describe_table :: "'db \<Rightarrow> string \<Rightarrow> exn + 'row list"
  HTTPException_str :: "nat \<Rightarrow> string \<Rightarrow> string"
  not_authenticated_status :: nat
  invalid_scheme_status :: nat
  invalid_scheme_detail :: string
  jsonable :: "'row \<Rightarrow> exn + 'row"

fun str :: "('db, 'row) collaborators \<Rightarrow> exn \<Rightarrow> string" where
  "str C (HTTPException status_code detail) = HTTPException_str C status_code detail"
| "str C (ValueError m) = m"
| "str C (RecursionError m) = m"
| "str C (OtherException m) = m"

datatype db_call =
    Call_execute_query string
  | Call_list_tables
  | Call_describe_table string

subsection \<open>Module-level configuration\<close>

type_synonym environ = "string \<rightharpoonup> string"

definition API_KEY :: "environ \<Rightarrow> string" where
  "API_KEY environ =
     (case environ ''MY_API_KEY'' of None \<Rightarrow> ''your-secret-api-key'' | Some v \<Rightarrow> v)"

subsection \<open>Authentication\<close>

text \<open>
  \<^verbatim>\<open>security = HTTPBearer()\<close>: the scheme of the framework, which runs before
  \<open>verify_token\<close>. It reads the \<^verbatim>\<open>Authorization\<close> header, splits it at the first
  space into scheme and credentials, raises "Not authenticated" when the header, the
  scheme or the credentials are empty, raises again when the scheme, in lower case, is
  not \<^verbatim>\<open>bearer\<close>, and otherwise hands the credentials on.
\<close>

definition get_authorization_scheme_param :: "string option \<Rightarrow> string \<times> string" where
  "get_authorization_scheme_param authorization_header_value =
     (case authorization_header_value of
        None \<Rightarrow> ([], [])
      | Some v \<Rightarrow>
          (takeWhile (\<lambda>c. c \<noteq> CHR '' '') v, drop 1 (dropWhile (\<lambda>c. c \<noteq> CHR '' '') v)))"

text \<open>
  \<^verbatim>\<open>s.lower()\<close> on characters below code point 256: the letters A to Z, and the
  capital letters 192 to 222 of Latin-1 without the multiplication sign 215.
\<close>

definition lower_char :: "char \<Rightarrow> char" where
  "lower_char c =
     (let n = (of_char c :: nat)
      in if (65 \<le> n \<and> n \<le> 90) \<or> (192 \<le> n \<and> n \<le> 222 \<and> n \<noteq> 215)
         then char_of (n + 32) else c)"

definition lower :: "string \<Rightarrow> string" where
  "lower s = map lower_char s"

definition HTTPBearer :: "('db, 'row) collaborators \<Rightarrow> string option \<Rightarrow> exn + string" where
  "HTTPBearer C authorization =
     (case get_authorization_scheme_param authorization of
        (scheme, credentials) \<Rightarrow>
          if authorization = None \<or> authorization = Some [] \<or> scheme = [] \<or> credentials = []
          then Inl (HTTPException (not_authenticated_status C) ''Not authenticated'')
          else if lower scheme \<noteq> ''bearer''
          then Inl (HTTPException (invalid_scheme_status C) (invalid_scheme_detail C))
          else Inr credentials)"

text \<open>
  The same scheme seen from the credential it found: none, or the credential it hands
  on. This is the form \<open>serve\<close> below takes it in.
\<close>

definition HTTPBearer_found :: "('db, 'row) collaborators \<Rightarrow> string option \<Rightarrow> exn + string" where
  "HTTPBearer_found C authorization =
     (case authorization of
        None \<Rightarrow> Inl (HTTPException (not_authenticated_status C) ''Not authenticated'')
      | Some credentials \<Rightarrow> Inr credentials)"

definition verify_token :: "string \<Rightarrow> string \<Rightarrow> exn + string" where
  "verify_token api_key credentials =
     (if credentials \<noteq> api_key then Inl (HTTPException 401 ''Invalid API key'')
      else Inr credentials)"

subsection \<open>Startup\<close>

text \<open>\<^verbatim>\<open>s.split(",")\<close>: the pieces between the separators, empty pieces included.\<close>

fun str_split :: "char \<Rightarrow> string \<Rightarrow> string list" where
  "str_split sep [] = [[]]"
| "str_split sep (c # cs) =
     (if c = sep then [] # str_split sep cs
      else (case str_split sep cs of
              [] \<Rightarrow> [[c]]
            | w # ws \<Rightarrow> (c # w) # ws))"

text \<open>
  \<^verbatim>\<open>s.strip()\<close> removes white space at both ends. The white-space characters of Python
  below code point 256 are 9 to 13, 28 to 32, 133 and 160.
\<close>

definition isspace :: "char \<Rightarrow> bool" where
  "isspace c =
     (let n = (of_char c :: nat)
      in (9 \<le> n \<and> n \<le> 13) \<or> (28 \<le> n \<and> n \<le> 32) \<or> n = 133 \<or> n = 160)"

definition strip :: "string \<Rightarrow> string" where
  "strip s = rev (dropWhile isspace (rev (dropWhile isspace s)))"

text \<open>Lines 127 to 130 of the module: the dataset filter read from the environment.\<close>

definition datasets_filter_of :: "environ \<Rightarrow> string list" where
  "datasets_filter_of environ =
     (case environ ''BIGQUERY_DATASETS'' of
        None \<Rightarrow> []
      | Some v \<Rightarrow> map strip (filter (\<lambda>d. strip d \<noteq> []) (str_split CHR '','' v)))"

type_synonym init_call = "string \<times> string \<times> string option \<times> string list"

text \<open>
  \<open>startup_event\<close> returns what it raised (or nothing), the new value of the global
  \<^verbatim>\<open>db\<close>, and the constructor calls it made.
\<close>

definition startup_event ::
  "('db, 'row) collaborators \<Rightarrow> environ \<Rightarrow> 'db option \<Rightarrow> (exn + unit) \<times> 'db option \<times> init_call list"
where
  "startup_event C environ db =
     (let project = environ ''BIGQUERY_PROJECT'';
          location = environ ''BIGQUERY_LOCATION'';
          key_file = environ ''BIGQUERY_KEY_FILE'';
          datasets_filter = datasets_filter_of environ;
          required = ValueError
            ''BIGQUERY_PROJECT and BIGQUERY_LOCATION environment variables are required''
      in case project of
           None \<Rightarrow> (Inl required, db, [])
         | Some p \<Rightarrow>
             (case location of
                None \<Rightarrow> (Inl required, db, [])
              | Some l \<Rightarrow>
                  if p = [] \<or> l = [] then (Inl required, db, [])
                  else (case db_init C p l key_file datasets_filter of
                          Inl e \<Rightarrow> (Inl e, db, [(p, l, key_file, datasets_filter)])
                        | Inr d \<Rightarrow> (Inr (), Some d, [(p, l, key_file, datasets_filter)]))))"

subsection \<open>Handlers\<close>

text \<open>
  Each protected handler is a \<^verbatim>\<open>try\<close> block followed by \<^verbatim>\<open>except Exception as e\<close>.
  The \<open>_try\<close> function is the block: it returns the response or the exception raised
  inside it. The handler proper adds the \<^verbatim>\<open>except\<close> clause.
\<close>

definition health :: HealthResponse where
  "health = HealthResponse_of True"

definition execute_query_try ::
  "('db, 'row) collaborators \<Rightarrow> 'db option \<Rightarrow> string \<Rightarrow> (exn + 'row QueryResponse) \<times> db_call list"
where
  "execute_query_try C db query =
     (case db of
        None \<Rightarrow> (Inl (HTTPException 503 ''Database not initialized''), [])
      | Some d \<Rightarrow>
          (case db_execute_query C d query of
             Inl e \<Rightarrow> (Inl e, [Call_execute_query query])
           | Inr results \<Rightarrow>
               (Inr (QueryResponse True results (int (length results)) None),
                [Call_execute_query query])))"

definition execute_query ::
  "('db, 'row) collaborators \<Rightarrow> 'db option \<Rightarrow> string \<Rightarrow> 'row QueryResponse \<times> db_call list"
where
  "execute_query C db query =
     (case execute_query_try C db query of
        (Inr response, calls) \<Rightarrow> (response, calls)
      | (Inl e, calls) \<Rightarrow> (QueryResponse False [] 0 (Some (str C e)), calls))"

definition list_tables_try ::
  "('db, 'row) collaborators \<Rightarrow> 'db option \<Rightarrow> (exn + TablesResponse) \<times> db_call list"
where
  "list_tables_try C db =
     (case db of
        None \<Rightarrow> (Inl (HTTPException 503 ''Database not initialized''), [])
      | Some d \<Rightarrow>
          (case db_list_tables C d of
             Inl e \<Rightarrow> (Inl e, [Call_list_tables])
           | Inr listed \<Rightarrow>
               (Inr (TablesResponse True listed (int (length listed)) None),
                [Call_list_tables])))"

definition list_tables ::
  "('db, 'row) collaborators \<Rightarrow> 'db option \<Rightarrow> TablesResponse \<times> db_call list"
where
  "list_tables C db =
     (case list_tables_try C db of
        (Inr response, calls) \<Rightarrow> (response, calls)
      | (Inl e, calls) \<Rightarrow> (TablesResponse False [] 0 (Some (str C e)), calls))"

definition describe_table_try ::
  "('db, 'row) collaborators \<Rightarrow> 'db option \<Rightarrow> string \<Rightarrow>
     (exn + 'row TableSchemaResponse) \<times> db_call list"
where
  "describe_table_try C db table_name =
     (case db of
        None \<Rightarrow> (Inl (HTTPException 503 ''Database not initialized''), [])
      | Some d \<Rightarrow>
          (case db_describe_table C d table_name of
             Inl e \<Rightarrow> (Inl e, [Call_describe_table table_name])
           | Inr schema \<Rightarrow>
               (Inr (TableSchemaResponse True schema None),
                [Call_describe_table table_name])))"

definition describe_table ::
  "('db, 'row) collaborators \<Rightarrow> 'db option \<Rightarrow> string \<Rightarrow>
     'row TableSchemaResponse \<times> db_call list"
where
  "describe_table C db table_name =
     (case describe_table_try C db table_name of
        (Inr response, calls) \<Rightarrow> (response, calls)
      | (Inl e, calls) \<Rightarrow> (TableSchemaResponse False [] (Some (str C e)), calls))"

subsection \<open>Routing\<close>

text \<open>
  A request is a route with its validated body. A response is status 200 with the
  model the handler returned, an error status with its \<^verbatim>\<open>detail\<close>, or status 422
  with the list of validation errors (not modelled). The three protected routes declare
  \<^verbatim>\<open>dependencies=[Depends(verify_token)]\<close>: the scheme and \<open>verify_token\<close> run
  first, and the handler runs only when neither raised.
\<close>

datatype request =
    GET_root
  | GET_health
  | POST_query string
  | GET_tables
  | POST_table_describe string

datatype 'row body =
    Health HealthResponse
  | Query "'row QueryResponse"
  | Tables TablesResponse
  | TableSchema "'row TableSchemaResponse"

datatype 'row http_response =
    Status200 "'row body"
  | StatusError nat string
  | Status422

fun protected :: "request \<Rightarrow> bool" where
  "protected GET_root = False"
| "protected GET_health = False"
| "protected (POST_query query) = True"
| "protected GET_tables = True"
| "protected (POST_table_describe table_name) = True"

fun endpoint ::
  "('db, 'row) collaborators \<Rightarrow> 'db option \<Rightarrow> request \<Rightarrow> 'row body \<times> db_call list"
where
  "endpoint C db GET_root = (Health health, [])"
| "endpoint C db GET_health = (Health health, [])"
| "endpoint C db (POST_query query) =
     (case execute_query C db query of (r, calls) \<Rightarrow> (Query r, calls))"
| "endpoint C db GET_tables =
     (case list_tables C db of (r, calls) \<Rightarrow> (Tables r, calls))"
| "endpoint C db (POST_table_describe table_name) =
     (case describe_table C db table_name of (r, calls) \<Rightarrow> (TableSchema r, calls))"

fun error_response :: "exn \<Rightarrow> 'row http_response" where
  "error_response (HTTPException status_code detail) = StatusError status_code detail"
| "error_response e = StatusError 500 ''Internal Server Error''"

definition serve ::
  "('db, 'row) collaborators \<Rightarrow> string \<Rightarrow> 'db option \<Rightarrow> string option \<Rightarrow> request \<Rightarrow>
     'row http_response \<times> db_call list"
where
  "serve C api_key db authorization req =
     (if protected req then
        (case HTTPBearer_found C authorization of
           Inl e \<Rightarrow> (error_response e, [])
         | Inr credentials \<Rightarrow>
             (case verify_token api_key credentials of
                Inl e \<Rightarrow> (error_response e, [])
              | Inr token \<Rightarrow>
                  (case endpoint C db req of (b, calls) \<Rightarrow> (Status200 b, calls))))
      else (case endpoint C db req of (b, calls) \<Rightarrow> (Status200 b, calls)))"

subsection \<open>The framework around the handlers\<close>

text \<open>
  What the framework does with a request to one of the routes, in its order. For a
  route that takes a body it reads the body first: a body that is not JSON is answered
  422 and any other failure to read it 400, before any dependency runs. Then the
  dependencies run (the scheme, then \<open>verify_token\<close>). Then the body is validated
  against the request model, and a body that is not an instance of it (an absent body
  included) is answered 422. Then the handler runs. Last, outside the handler's
  \<^verbatim>\<open>try\<close>, the returned model is encoded for the \<^verbatim>\<open>response_model\<close> of the route:
  an exception of the encoder is answered 500.
\<close>

datatype payload =
    Not_JSON
  | Unreadable
  | Invalid
  | Valid string

datatype target =
    To_root
  | To_health
  | To_query payload
  | To_tables
  | To_table_describe payload

record raw_request =
  target :: target
  Authorization :: "string option"

fun payload_error :: "payload \<Rightarrow> 'row http_response option" where
  "payload_error Not_JSON = Some Status422"
| "payload_error Unreadable = Some (StatusError 400 ''There was an error parsing the body'')"
| "payload_error Invalid = None"
| "payload_error (Valid v) = None"

fun body_error :: "target \<Rightarrow> 'row http_response option" where
  "body_error (To_query p) = payload_error p"
| "body_error (To_table_describe p) = payload_error p"
| "body_error t = None"

fun validated :: "target \<Rightarrow> request option" where
  "validated To_root = Some GET_root"
| "validated To_health = Some GET_health"
| "validated (To_query (Valid query)) = Some (POST_query query)"
| "validated (To_query p) = None"
| "validated To_tables = Some GET_tables"
| "validated (To_table_describe (Valid table_name)) = Some (POST_table_describe table_name)"
| "validated (To_table_describe p) = None"

fun guarded :: "target \<Rightarrow> bool" where
  "guarded To_root = False"
| "guarded To_health = False"
| "guarded (To_query p) = True"
| "guarded To_tables = True"
| "guarded (To_table_describe p) = True"

fun encode_rows :: "('row \<Rightarrow> exn + 'row) \<Rightarrow> 'row list \<Rightarrow> exn + 'row list" where
  "encode_rows enc [] = Inr []"
| "encode_rows enc (r # rs) =
     (case enc r of
        Inl e \<Rightarrow> Inl e
      | Inr r' \<Rightarrow>
          (case encode_rows enc rs of
             Inl e \<Rightarrow> Inl e
           | Inr rs' \<Rightarrow> Inr (r' # rs')))"

fun serialize_response :: "('db, 'row) collaborators \<Rightarrow> 'row body \<Rightarrow> 'row http_response" where
  "serialize_response C (Health h) = Status200 (Health h)"
| "serialize_response C (Query (QueryResponse s d n e)) =
     (case encode_rows (jsonable C) d of
        Inl x \<Rightarrow> StatusError 500 ''Internal Server Error''
      | Inr d' \<Rightarrow> Status200 (Query (QueryResponse s d' n e)))"
| "serialize_response C (Tables t) = Status200 (Tables t)"
| "serialize_response C (TableSchema (TableSchemaResponse s d e)) =
     (case encode_rows (jsonable C) d of
        Inl x \<Rightarrow> StatusError 500 ''Internal Server Error''
      | Inr d' \<Rightarrow> Status200 (TableSchema (TableSchemaResponse s d' e)))"

definition run_endpoint ::
  "('db, 'row) collaborators \<Rightarrow> 'db option \<Rightarrow> target \<Rightarrow> 'row http_response \<times> db_call list"
where
  "run_endpoint C db t =
     (case validated t of
        None \<Rightarrow> (Status422, [])
      | Some req \<Rightarrow>
          (case endpoint C db req of (b, calls) \<Rightarrow> (serialize_response C b, calls)))"

definition handle_request ::
  "('db, 'row) collaborators \<Rightarrow> string \<Rightarrow> 'db option \<Rightarrow> raw_request \<Rightarrow>
     'row http_response \<times> db_call list"
where
  "handle_request C api_key db rq =
     (case body_error (target rq) of
        Some r \<Rightarrow> (r, [])
      | None \<Rightarrow>
          if guarded (target rq) then
            (case HTTPBearer C (Authorization rq) of
               Inl e \<Rightarrow> (error_response e, [])
             | Inr credentials \<Rightarrow>
                 (case verify_token api_key credentials of
                    Inl e \<Rightarrow> (error_response e, [])
                  | Inr token \<Rightarrow> run_endpoint C db (target rq)))
          else run_endpoint C db (target rq))"

subsection \<open>The OpenAPI description\<close>

text \<open>
  The description is a dictionary, never empty once generated; the model keeps its
  \<^verbatim>\<open>"servers"\<close> entry (absent or a list), the only one the module touches. The application
  object has two attributes that matter here: \<^verbatim>\<open>openapi_schema\<close>, the cached
  description (\<^verbatim>\<open>None\<close> until one is stored), and \<^verbatim>\<open>openapi\<close>, which is the method of
  the class until line 106 of the module assigns \<open>custom_openapi\<close> to it.
\<close>

record 'srv schema =
  servers :: "'srv list option"

datatype openapi_attr = FastAPI_openapi | Custom_openapi

record 'srv FastAPI =
  openapi_schema :: "'srv schema option"
  openapi :: openapi_attr

text \<open>
  The method of the class: it stores the description generated from the routes on its
  first call and returns the stored one.
\<close>

definition FastAPI_openapi_method ::
  "'srv schema \<Rightarrow> 'srv FastAPI \<Rightarrow> (exn + 'srv schema) \<times> 'srv FastAPI"
where
  "FastAPI_openapi_method generated app =
     (case openapi_schema app of
        Some s \<Rightarrow> (Inr s, app)
      | None \<Rightarrow> (Inr generated, app\<lparr>openapi_schema := Some generated\<rparr>))"

text \<open>
  \<open>custom_openapi\<close>, with the number of stack frames still available as first
  argument: the interpreter raises \<^verbatim>\<open>RecursionError\<close> when none is left. The call
  \<^verbatim>\<open>app.openapi()\<close> in its body goes to whatever the attribute \<^verbatim>\<open>openapi\<close> holds at
  the time of the call.
\<close>

fun custom_openapi ::
  "nat \<Rightarrow> 'srv list \<Rightarrow> 'srv schema \<Rightarrow> 'srv FastAPI \<Rightarrow> (exn + 'srv schema) \<times> 'srv FastAPI"
where
  "custom_openapi 0 OPENAPI_SERVERS generated app =
     (Inl (RecursionError ''maximum recursion depth exceeded''), app)"
| "custom_openapi (Suc frames) OPENAPI_SERVERS generated app =
     (case openapi_schema app of
        Some cached \<Rightarrow> (Inr cached, app)
      | None \<Rightarrow>
          (case (case openapi app of
                   FastAPI_openapi \<Rightarrow> FastAPI_openapi_method generated app
                 | Custom_openapi \<Rightarrow> custom_openapi frames OPENAPI_SERVERS generated app) of
             (Inl e, app') \<Rightarrow> (Inl e, app')
           | (Inr built, app') \<Rightarrow>
               (let injected =
                      (if OPENAPI_SERVERS \<noteq> [] then built\<lparr>servers := Some OPENAPI_SERVERS\<rparr>
                       else built)
                in (Inr injected, app'\<lparr>openapi_schema := Some injected\<rparr>))))"

text \<open>
  The application object once the module is loaded: nothing cached, and
  \<^verbatim>\<open>app.openapi = custom_openapi\<close> done.
\<close>

definition app :: "'srv FastAPI" where
  "app = \<lparr>openapi_schema = None, openapi = Custom_openapi\<rparr>"

subsection \<open>A concrete deployment\<close>

text \<open>
  Stand-ins for the collaborators, used where a statement is evaluated at a concrete
  input: a database object that is just the tuple of its constructor's arguments, a
  warehouse with three tables in three datasets, three queries that succeed, the
  framework at version 0.115, and an environment that configures the dataset filter
  \<^verbatim>\<open>sales, ops\<close>.

  A row maps column names to cells. Text is held by its UTF-8 bytes. The encoder of
  the framework renders a byte string as the text it encodes in UTF-8 and raises when
  it encodes none, renders the float NaN as \<^verbatim>\<open>null\<close>, and leaves integers, text and
  \<^verbatim>\<open>null\<close> as they are.
\<close>

datatype cell =
    Int_cell int
  | Text_cell string
  | Bytes_cell string
  | NaN_cell
  | Null_cell

text \<open>
  Well-formed UTF-8: the argument is the number of continuation bytes still due and
  the range the next one must lie in.
\<close>

fun utf8_from :: "nat \<times> nat \<times> nat \<Rightarrow> nat list \<Rightarrow> bool" where
  "utf8_from (k, lo, hi) [] = (k = 0)"
| "utf8_from (k, lo, hi) (b # bs) =
     (if k = 0 then
        (if b < 128 then utf8_from (0, 128, 191) bs
         else if 194 \<le> b \<and> b \<le> 223 then utf8_from (1, 128, 191) bs
         else if b = 224 then utf8_from (2, 160, 191) bs
         else if (225 \<le> b \<and> b \<le> 236) \<or> b = 238 \<or> b = 239 then utf8_from (2, 128, 191) bs
         else if b = 237 then utf8_from (2, 128, 159) bs
         else if b = 240 then utf8_from (3, 144, 191) bs
         else if 241 \<le> b \<and> b \<le> 243 then utf8_from (3, 128, 191) bs
         else if b = 244 then utf8_from (3, 128, 143) bs
         else False)
      else lo \<le> b \<and> b \<le> hi \<and> utf8_from (k - 1, 128, 191) bs)"

definition utf8_valid :: "string \<Rightarrow> bool" where
  "utf8_valid bs = utf8_from (0, 128, 191) (map of_char bs)"

fun jsonable_cell :: "cell \<Rightarrow> exn + cell" where
  "jsonable_cell (Int_cell i) = Inr (Int_cell i)"
| "jsonable_cell (Text_cell t) = Inr (Text_cell t)"
| "jsonable_cell (Bytes_cell bs) =
     (if utf8_valid bs then Inr (Text_cell bs)
      else Inl (OtherException ''invalid utf-8 sequence''))"
| "jsonable_cell NaN_cell = Inr Null_cell"
| "jsonable_cell Null_cell = Inr Null_cell"

definition jsonable_row :: "(string \<times> cell) list \<Rightarrow> exn + (string \<times> cell) list" where
  "jsonable_row row =
     (case encode_rows jsonable_cell (map snd row) of
        Inl e \<Rightarrow> Inl e
      | Inr cells \<Rightarrow> Inr (zip (map fst row) cells))"

text \<open>The decimal digits of a number, for \<^verbatim>\<open>str\<close> of an \<^verbatim>\<open>HTTPException\<close>.\<close>

fun decimal :: "nat \<Rightarrow> string" where
  "decimal n =
     (if n < 10 then [char_of (48 + n)]
      else decimal (n div 10) @ [char_of (48 + n mod 10)])"

declare decimal.simps [simp del]

definition demo :: "(init_call, (string \<times> cell) list) collaborators" where
  "demo =
     \<lparr>db_init = (\<lambda>p l k f. Inr (p, l, k, f)),
      db_execute_query =
        (\<lambda>d q. if q = ''SELECT 1 AS x'' then Inr [[(''x'', Int_cell 1)]]
                else if q = ''SELECT raw FROM blobs'' then Inr [[(''raw'', Bytes_cell [CHR 0xFF])]]
                else if q = ''SELECT ratio FROM stats'' then Inr [[(''ratio'', NaN_cell)]]
                else Inl (OtherException ''Syntax error'')),
      db_list_tables = (\<lambda>d. Inr [''sales.orders'', ''hr.employees'', ''ops.jobs'']),
      db_describe_table = (\<lambda>d t. Inr []),
      HTTPException_str = (\<lambda>status_code detail. decimal status_code @ '': '' @ detail),
      not_authenticated_status = 403,
      invalid_scheme_status = 403,
      invalid_scheme_detail = ''Invalid authentication credentials'',
      jsonable = jsonable_row\<rparr>"

definition demo_environ :: environ where
  "demo_environ =
     [''BIGQUERY_PROJECT'' \<mapsto> ''analytics'', ''BIGQUERY_LOCATION'' \<mapsto> ''US'',
      ''BIGQUERY_DATASETS'' \<mapsto> ''sales, ops'']"

definition no_project_environ :: environ where
  "no_project_environ = [''BIGQUERY_LOCATION'' \<mapsto> ''US'']"

definition demo_db :: init_call where
  "demo_db = (''analytics'', ''US'', None, [''sales'', ''ops''])"

subsection \<open>The envelope invariant\<close>

text \<open>
  What the data model asks of a response body: \<^verbatim>\<open>error\<close> is set exactly when
  \<^verbatim>\<open>success\<close> is false, and a successful body counts its rows or tables.
\<close>

fun envelope_invariant :: "'row body \<Rightarrow> bool" where
  "envelope_invariant (Health h) = True"
| "envelope_invariant (Query (QueryResponse s d n e)) =
     ((e \<noteq> None) = (\<not> s) \<and> (s \<longrightarrow> n = int (length d)))"
| "envelope_invariant (Tables (TablesResponse s t n e)) =
     ((e \<noteq> None) = (\<not> s) \<and> (s \<longrightarrow> n = int (length t)))"
| "envelope_invariant (TableSchema (TableSchemaResponse s d e)) =
     ((e \<noteq> None) = (\<not> s))"

section \<open>Properties\<close>

subsection \<open>Auxiliary facts\<close>

lemmas handler_defs =
  execute_query_def execute_query_try_def list_tables_def list_tables_try_def
  describe_table_def describe_table_try_def

lemma serve_authorized:
  "serve C api_key db (Some api_key) req =
     (case endpoint C db req of (b, calls) \<Rightarrow> (Status200 b, calls))"
  by (simp add: serve_def HTTPBearer_found_def verify_token_def)

lemma error_response_not_200: "error_response e \<noteq> Status200 b"
  by (cases e) simp_all

lemma endpoint_invariant: "envelope_invariant (fst (endpoint C db req))"
  by (cases req) (simp_all add: handler_defs health_def split: option.splits sum.splits)

lemma demo_filter: "datasets_filter_of demo_environ = [''sales'', ''ops'']"
  by (simp add: datasets_filter_of_def demo_environ_def strip_def isspace_def)

lemma demo_startup:
  "startup_event demo demo_environ None = (Inr (), Some demo_db, [demo_db])"
  by (simp add: startup_event_def demo_filter demo_db_def Let_def)
     (simp add: demo_environ_def demo_def)

lemma encode_rows_length:
  "encode_rows enc rs = Inr rs' \<Longrightarrow> length rs' = length rs"
  by (induction rs arbitrary: rs') (auto split: sum.splits)

lemma handle_request_authorized:
  assumes "HTTPBearer C (Authorization rq) = Inr api_key"
      and "validated (target rq) = Some req"
  shows "handle_request C api_key db rq =
           (case endpoint C db req of (b, calls) \<Rightarrow> (serialize_response C b, calls))"
proof -
  from assms(2) have "body_error (target rq) = (None :: 'b http_response option)"
    by (cases "target rq" rule: validated.cases) simp_all
  with assms show ?thesis
    by (simp add: handle_request_def run_endpoint_def verify_token_def)
qed

text \<open>
  On a request whose body validates and from whose header the scheme obtains a
  credential, the framework answers what \<open>serve\<close> answers, encoded.
\<close>

lemma handle_request_after_serve:
  assumes "HTTPBearer C (Authorization rq) = Inr credentials"
      and "validated (target rq) = Some req"
  shows "handle_request C api_key db rq =
           (case serve C api_key db (Some credentials) req of
              (Status200 b, calls) \<Rightarrow> (serialize_response C b, calls)
            | (r, calls) \<Rightarrow> (r, calls))"
proof -
  from assms(2) have e: "body_error (target rq) = (None :: 'b http_response option)"
    and g: "guarded (target rq) = protected req"
    by (cases "target rq" rule: validated.cases; auto)+
  show ?thesis
  proof (cases "verify_token api_key credentials")
    case (Inl x)
    then obtain s d where "x = HTTPException s d"
      by (auto simp add: verify_token_def split: if_splits)
    with Inl assms e g show ?thesis
      by (simp add: handle_request_def run_endpoint_def serve_def HTTPBearer_found_def
          split: prod.splits)
  next
    case (Inr t)
    with assms e g show ?thesis
      by (simp add: handle_request_def run_endpoint_def serve_def HTTPBearer_found_def
          split: prod.splits)
  qed
qed

lemma lower_Bearer: "lower ''Bearer'' = ''bearer''"
  by code_simp


lemma demo_bearer: "HTTPBearer demo (Some ''Bearer s3cret'') = Inr ''s3cret''"
  by (simp add: HTTPBearer_def get_authorization_scheme_param_def lower_Bearer)

lemma demo_query_target:
  "validated (target \<lparr>target = To_query (Valid query), Authorization = authorization\<rparr>) =
     Some (POST_query query)"
  by simp

lemma demo_tables:
  "serve demo ''s3cret'' (Some demo_db) (Some ''s3cret'') GET_tables =
     (Status200 (Tables (TablesResponse True
        [''sales.orders'', ''hr.employees'', ''ops.jobs''] 3 None)), [Call_list_tables])"
  by (simp add: serve_authorized handler_defs demo_def)

subsection \<open>The database is not initialized\<close>

text \<open>
  C1. The claim: a protected endpoint called with a valid token while \<^verbatim>\<open>db\<close> is unset
  answers HTTP 503 with detail "Database not initialized". The handlers do raise that
  exception, but inside the \<^verbatim>\<open>try\<close> block whose \<^verbatim>\<open>except Exception\<close> clause
  catches it: each of the three endpoints answers status 200 with a failure envelope
  whose \<^verbatim>\<open>error\<close> is the text of the caught exception, and calls no database method.
\<close>

theorem not_initialized_is_swallowed:
  "serve C api_key None (Some api_key) (POST_query query) =
     (Status200 (Query (QueryResponse False [] 0
        (Some (HTTPException_str C 503 ''Database not initialized'')))), [])
   \<and> serve C api_key None (Some api_key) GET_tables =
     (Status200 (Tables (TablesResponse False [] 0
        (Some (HTTPException_str C 503 ''Database not initialized'')))), [])
   \<and> serve C api_key None (Some api_key) (POST_table_describe table_name) =
     (Status200 (TableSchema (TableSchemaResponse False []
        (Some (HTTPException_str C 503 ''Database not initialized'')))), [])"
  by (simp add: serve_def HTTPBearer_found_def verify_token_def handler_defs)

subsection \<open>Listing tables\<close>

text \<open>
  C2, as amended. For \<^verbatim>\<open>GET /tables\<close> with a valid token and an initialized
  database whose \<^verbatim>\<open>list_tables\<close> call returns a list, the response is status 200
  with \<^verbatim>\<open>success\<close> true, exactly that list, unchanged and in the same order, and
  \<^verbatim>\<open>count\<close> equal to its length; \<^verbatim>\<open>list_tables\<close> is called once. The handler
  applies no dataset filter of its own: the filter goes to the constructor of the
  database at startup, and what is listed is the database's answer.
\<close>

theorem tables_passed_through:
  assumes "db_list_tables C d = Inr listed"
  shows "serve C api_key (Some d) (Some api_key) GET_tables =
           (Status200 (Tables (TablesResponse True listed (int (length listed)) None)),
            [Call_list_tables])"
  using assms by (simp add: serve_authorized handler_defs)

text \<open>The amended statement at the deployment above.\<close>

theorem tables_passed_through_witness:
  "db_list_tables demo demo_db = Inr [''sales.orders'', ''hr.employees'', ''ops.jobs'']
   \<and> serve demo ''s3cret'' (Some demo_db) (Some ''s3cret'') GET_tables =
       (Status200 (Tables (TablesResponse True
          [''sales.orders'', ''hr.employees'', ''ops.jobs''] 3 None)), [Call_list_tables])"
proof -
  have h: "db_list_tables demo demo_db = Inr [''sales.orders'', ''hr.employees'', ''ops.jobs'']"
    by (simp add: demo_def)
  from tables_passed_through [OF h, of "''s3cret''"] h show ?thesis by simp
qed

text \<open>
  The claim as written fails: the database was built at startup with the filter
  \<^verbatim>\<open>["sales", "ops"]\<close>, its \<^verbatim>\<open>list_tables\<close> returns the three tables, and the
  response is not the two-table list with count 2 (it is the three tables, count 3).
\<close>

theorem tables_filter_counterexample:
  "fst (snd (startup_event demo demo_environ None)) = Some demo_db
   \<and> snd (snd (snd demo_db)) = [''sales'', ''ops'']
   \<and> db_list_tables demo demo_db = Inr [''sales.orders'', ''hr.employees'', ''ops.jobs'']
   \<and> fst (serve demo ''s3cret'' (Some demo_db) (Some ''s3cret'') GET_tables) \<noteq>
       Status200 (Tables (TablesResponse True [''sales.orders'', ''ops.jobs''] 2 None))"
  by (simp add: demo_startup demo_tables) (simp add: demo_def demo_db_def)

subsection \<open>Rejected credentials\<close>




subsection \<open>Query envelopes\<close>

text \<open>
  C4. For \<^verbatim>\<open>POST /query\<close> with a valid token and an initialized database, if
  \<^verbatim>\<open>db.execute_query\<close> raises an exception \<open>e\<close>, the handler answers status 200 with
  \<^verbatim>\<open>success\<close> false, no data, \<^verbatim>\<open>row_count\<close> 0 and \<^verbatim>\<open>error\<close> the text of \<open>e\<close>,
  unchanged; nothing escapes the handler.
\<close>

theorem query_failure_envelope:
  assumes "db_execute_query C d query = Inl e"
  shows "serve C api_key (Some d) (Some api_key) (POST_query query) =
           (Status200 (Query (QueryResponse False [] 0 (Some (str C e)))),
            [Call_execute_query query])"
  using assms by (simp add: serve_authorized handler_defs)

text \<open>A query the warehouse rejects with the message "Syntax error".\<close>

theorem query_failure_envelope_witness:
  "db_execute_query demo demo_db ''SELEC 1'' = Inl (OtherException ''Syntax error'')
   \<and> serve demo ''s3cret'' (Some demo_db) (Some ''s3cret'') (POST_query ''SELEC 1'') =
       (Status200 (Query (QueryResponse False [] 0 (Some ''Syntax error''))),
        [Call_execute_query ''SELEC 1''])"
proof -
  have h: "db_execute_query demo demo_db ''SELEC 1'' = Inl (OtherException ''Syntax error'')"
    by (simp add: demo_def)
  from query_failure_envelope [OF h, of "''s3cret''"] h show ?thesis by simp
qed

text \<open>
  C5, as amended. For \<^verbatim>\<open>POST /query\<close> with a valid token, a valid body and an
  initialized database whose \<^verbatim>\<open>execute_query\<close> returns a list of N rows, the handler
  calls the database once and returns \<^verbatim>\<open>QueryResponse\<close> with \<^verbatim>\<open>success\<close> true,
  those rows unchanged, \<^verbatim>\<open>row_count\<close> N and \<^verbatim>\<open>error\<close> absent. The framework then
  encodes that model: when the encoder renders every row, the response is status 200
  with \<^verbatim>\<open>success\<close> true, the N rows as rendered, \<^verbatim>\<open>row_count\<close> N, equal to the
  length of \<^verbatim>\<open>data\<close>, and \<^verbatim>\<open>error\<close> absent, so that rows the encoder leaves as
  they are arrive unchanged; when the encoder raises on a row, the response is
  status 500.
\<close>

theorem query_success_response:
  assumes "db_execute_query C d query = Inr rows"
      and "HTTPBearer C authorization = Inr api_key"
  shows "execute_query C (Some d) query =
           (QueryResponse True rows (int (length rows)) None, [Call_execute_query query])
         \<and> handle_request C api_key (Some d)
             \<lparr>target = To_query (Valid query), Authorization = authorization\<rparr> =
           ((case encode_rows (jsonable C) rows of
               Inr rendered \<Rightarrow>
                 Status200 (Query (QueryResponse True rendered (int (length rendered)) None))
             | Inl e \<Rightarrow> StatusError 500 ''Internal Server Error''),
            [Call_execute_query query])
         \<and> (\<forall>rendered. encode_rows (jsonable C) rows = Inr rendered \<longrightarrow>
               length rendered = length rows)"
proof (intro conjI allI impI)
  show "execute_query C (Some d) query =
          (QueryResponse True rows (int (length rows)) None, [Call_execute_query query])"
    using assms(1) by (simp add: handler_defs)
  show "length rendered = length rows" if "encode_rows (jsonable C) rows = Inr rendered"
    for rendered
    using that by (rule encode_rows_length)
  have "validated (target \<lparr>target = To_query (Valid query), Authorization = authorization\<rparr>) =
          Some (POST_query query)"
    by simp
  with assms(2)
  have "handle_request C api_key (Some d)
          \<lparr>target = To_query (Valid query), Authorization = authorization\<rparr> =
        (case endpoint C (Some d) (POST_query query) of
           (b, calls) \<Rightarrow> (serialize_response C b, calls))"
    by (intro handle_request_authorized) simp_all
  with assms(1)
  show "handle_request C api_key (Some d)
             \<lparr>target = To_query (Valid query), Authorization = authorization\<rparr> =
           ((case encode_rows (jsonable C) rows of
               Inr rendered \<Rightarrow>
                 Status200 (Query (QueryResponse True rendered (int (length rendered)) None))
             | Inl e \<Rightarrow> StatusError 500 ''Internal Server Error''),
            [Call_execute_query query])"
    by (auto simp add: handler_defs dest: encode_rows_length split: sum.splits)
qed

text \<open>A query that returns one row of one integer, which the encoder leaves as it is.\<close>

theorem query_success_response_witness:
  "db_execute_query demo demo_db ''SELECT 1 AS x'' = Inr [[(''x'', Int_cell 1)]]
   \<and> HTTPBearer demo (Some ''Bearer s3cret'') = Inr ''s3cret''
   \<and> encode_rows (jsonable demo) [[(''x'', Int_cell 1)]] = Inr [[(''x'', Int_cell 1)]]
   \<and> handle_request demo ''s3cret'' (Some demo_db)
        \<lparr>target = To_query (Valid ''SELECT 1 AS x''), Authorization = Some ''Bearer s3cret''\<rparr> =
       (Status200 (Query (QueryResponse True [[(''x'', Int_cell 1)]] 1 None)),
        [Call_execute_query ''SELECT 1 AS x''])"
proof -
  have h: "db_execute_query demo demo_db ''SELECT 1 AS x'' = Inr [[(''x'', Int_cell 1)]]"
    by (simp add: demo_def)
  have r: "encode_rows (jsonable demo) [[(''x'', Int_cell 1)]] = Inr [[(''x'', Int_cell 1)]]"
    by (simp add: demo_def jsonable_row_def)
  from query_success_response [OF h demo_bearer] h demo_bearer r show ?thesis
    by simp
qed

text \<open>
  The claim as written fails at the level of the response: a row with a byte string
  that is not UTF-8 is answered status 500, and a row with the float NaN comes back
  with \<^verbatim>\<open>null\<close> in its place.
\<close>

theorem query_rows_counterexample:
  "db_execute_query demo demo_db ''SELECT raw FROM blobs'' =
     Inr [[(''raw'', Bytes_cell [CHR 0xFF])]]
   \<and> fst (handle_request demo ''s3cret'' (Some demo_db)
        \<lparr>target = To_query (Valid ''SELECT raw FROM blobs''),
          Authorization = Some ''Bearer s3cret''\<rparr>) \<noteq>
       Status200 (Query (QueryResponse True [[(''raw'', Bytes_cell [CHR 0xFF])]] 1 None))
   \<and> db_execute_query demo demo_db ''SELECT ratio FROM stats'' =
     Inr [[(''ratio'', NaN_cell)]]
   \<and> fst (handle_request demo ''s3cret'' (Some demo_db)
        \<lparr>target = To_query (Valid ''SELECT ratio FROM stats''),
          Authorization = Some ''Bearer s3cret''\<rparr>) \<noteq>
       Status200 (Query (QueryResponse True [[(''ratio'', NaN_cell)]] 1 None))"
proof -
  have a: "handle_request demo ''s3cret'' (Some demo_db)
        \<lparr>target = To_query (Valid ''SELECT raw FROM blobs''),
          Authorization = Some ''Bearer s3cret''\<rparr> =
       (StatusError 500 ''Internal Server Error'', [Call_execute_query ''SELECT raw FROM blobs''])"
    by (simp add: handle_request_authorized [OF _ demo_query_target] demo_bearer)
       (simp add: handler_defs demo_def jsonable_row_def utf8_valid_def)
  have b: "handle_request demo ''s3cret'' (Some demo_db)
        \<lparr>target = To_query (Valid ''SELECT ratio FROM stats''),
          Authorization = Some ''Bearer s3cret''\<rparr> =
       (Status200 (Query (QueryResponse True [[(''ratio'', Null_cell)]] 1 None)),
        [Call_execute_query ''SELECT ratio FROM stats''])"
    by (simp add: handle_request_authorized [OF _ demo_query_target] demo_bearer)
       (simp add: handler_defs demo_def jsonable_row_def)
  show ?thesis by (simp add: a b) (simp add: demo_def)
qed

subsection \<open>Every envelope is well formed\<close>

text \<open>
  C6. Every body a handler produces, on every path (database unset, database call
  raising, database call returning), satisfies the invariant: \<^verbatim>\<open>error\<close> is set
  exactly when \<^verbatim>\<open>success\<close> is false, and when \<^verbatim>\<open>success\<close> is true
  \<^verbatim>\<open>row_count\<close> is the length of \<^verbatim>\<open>data\<close> and \<^verbatim>\<open>count\<close> the length of
  \<^verbatim>\<open>tables\<close>. The same holds of every body that leaves the server with status 200.
\<close>

theorem envelopes_well_formed:
  "envelope_invariant (fst (endpoint C db req))
   \<and> (\<forall>b calls. serve C api_key db authorization req = (Status200 b, calls) \<longrightarrow>
         envelope_invariant b)"
proof
  show "envelope_invariant (fst (endpoint C db req))"
    by (rule endpoint_invariant)
  show "\<forall>b calls. serve C api_key db authorization req = (Status200 b, calls) \<longrightarrow>
         envelope_invariant b"
    using endpoint_invariant [of C db req]
    by (auto simp add: serve_def error_response_not_200
        split: if_splits sum.splits prod.splits)
qed

text \<open>The three-table listing of the deployment above is such a body.\<close>

theorem envelopes_well_formed_witness:
  "serve demo ''s3cret'' (Some demo_db) (Some ''s3cret'') GET_tables =
     (Status200 (Tables (TablesResponse True
        [''sales.orders'', ''hr.employees'', ''ops.jobs''] 3 None)), [Call_list_tables])
   \<and> envelope_invariant (Tables (TablesResponse True
        [''sales.orders'', ''hr.employees'', ''ops.jobs''] 3 None)
        :: (string \<times> cell) list body)"
  using envelopes_well_formed
          [of demo "Some demo_db" GET_tables "''s3cret''" "Some ''s3cret''"] demo_tables
  by blast

subsection \<open>Health\<close>

text \<open>
  C7. \<^verbatim>\<open>GET /\<close> and \<^verbatim>\<open>GET /health\<close> answer status 200 with
  \<^verbatim>\<open>healthy\<close> true, version "1.0.0" and the fixed service name, whatever the
  state of the database and whatever credential the request carries, and call no
  method of the database.
\<close>

theorem health_always:
  "serve C api_key db authorization GET_root =
     (Status200 (Health
        (HealthResponse True ''1.0.0'' ''BigQuery API for ChatGPT Connector'')), [])
   \<and> serve C api_key db authorization GET_health =
     (Status200 (Health
        (HealthResponse True ''1.0.0'' ''BigQuery API for ChatGPT Connector'')), [])"
  by (simp add: serve_def health_def HealthResponse_of_def)

subsection \<open>The OpenAPI description\<close>

text \<open>
  C8. The claim: the description carries the configured server list and is built once
  and cached. In the module as loaded, the attribute \<^verbatim>\<open>app.openapi\<close> is
  \<open>custom_openapi\<close> itself, so the call \<^verbatim>\<open>app.openapi()\<close> in its body re-enters it
  with nothing cached yet: whatever the stack depth, the server list and the
  generated description, the call ends in \<^verbatim>\<open>RecursionError\<close>, returns no
  description and caches none.
\<close>

theorem custom_openapi_never_returns:
  "custom_openapi frames OPENAPI_SERVERS generated app =
     (Inl (RecursionError ''maximum recursion depth exceeded''), app)"
  by (induction frames) (simp_all add: app_def)

text \<open>
  Had the attribute still been the method of the class, the first call would build the
  description with the configured servers and cache it.
\<close>

lemma custom_openapi_over_class_method:
  "custom_openapi (Suc frames) OPENAPI_SERVERS generated (app\<lparr>openapi := FastAPI_openapi\<rparr>) =
     (let injected =
            (if OPENAPI_SERVERS \<noteq> [] then generated\<lparr>servers := Some OPENAPI_SERVERS\<rparr>
             else generated)
      in (Inr injected, \<lparr>openapi_schema = Some injected, openapi = FastAPI_openapi\<rparr>))"
  by (simp add: app_def FastAPI_openapi_method_def Let_def)

subsection \<open>Startup\<close>

text \<open>
  C9. If \<^verbatim>\<open>BIGQUERY_PROJECT\<close> or \<^verbatim>\<open>BIGQUERY_LOCATION\<close> is unset or empty,
  \<open>startup_event\<close> raises \<^verbatim>\<open>ValueError\<close>, calls the constructor of the database not
  at all and leaves \<^verbatim>\<open>db\<close> as it was (unset, at startup). If both are set and not
  empty, it calls the constructor exactly once, with the project, the location, the
  optional key file and the dataset filter read from the environment, and the object
  the constructor returns becomes \<^verbatim>\<open>db\<close>.
\<close>

theorem startup_requires_project_and_location:
  "((environ ''BIGQUERY_PROJECT'' = None \<or> environ ''BIGQUERY_PROJECT'' = Some []
      \<or> environ ''BIGQUERY_LOCATION'' = None \<or> environ ''BIGQUERY_LOCATION'' = Some []) \<longrightarrow>
     startup_event C environ db =
       (Inl (ValueError
          ''BIGQUERY_PROJECT and BIGQUERY_LOCATION environment variables are required''),
        db, []))
   \<and> (environ ''BIGQUERY_PROJECT'' = Some p \<and> p \<noteq> []
      \<and> environ ''BIGQUERY_LOCATION'' = Some l \<and> l \<noteq> [] \<longrightarrow>
     snd (snd (startup_event C environ db)) =
       [(p, l, environ ''BIGQUERY_KEY_FILE'', datasets_filter_of environ)]
     \<and> (\<forall>d. db_init C p l (environ ''BIGQUERY_KEY_FILE'') (datasets_filter_of environ) = Inr d
          \<longrightarrow> startup_event C environ db =
                (Inr (), Some d,
                 [(p, l, environ ''BIGQUERY_KEY_FILE'', datasets_filter_of environ)])))"
  by (auto simp add: startup_event_def Let_def split: option.splits sum.splits)

text \<open>An environment without the project, and one with project, location and filter.\<close>

theorem startup_requires_project_and_location_witness:
  "no_project_environ ''BIGQUERY_PROJECT'' = None
   \<and> startup_event demo no_project_environ None =
       (Inl (ValueError
          ''BIGQUERY_PROJECT and BIGQUERY_LOCATION environment variables are required''),
        None, [])
   \<and> demo_environ ''BIGQUERY_PROJECT'' = Some ''analytics''
   \<and> demo_environ ''BIGQUERY_LOCATION'' = Some ''US''
   \<and> db_init demo ''analytics'' ''US'' None [''sales'', ''ops''] = Inr demo_db
   \<and> startup_event demo demo_environ None = (Inr (), Some demo_db, [demo_db])"
proof -
  have a: "no_project_environ ''BIGQUERY_PROJECT'' = None"
    by (simp add: no_project_environ_def)
  have b: "demo_environ ''BIGQUERY_PROJECT'' = Some ''analytics''"
    "demo_environ ''BIGQUERY_LOCATION'' = Some ''US''"
    "demo_environ ''BIGQUERY_KEY_FILE'' = None"
    by (simp_all add: demo_environ_def)
  have c: "db_init demo ''analytics'' ''US'' None [''sales'', ''ops''] = Inr demo_db"
    by (simp add: demo_def demo_db_def)
  from startup_requires_project_and_location
         [where environ = no_project_environ and C = demo and db = None] a
  have 1: "startup_event demo no_project_environ None =
       (Inl (ValueError
          ''BIGQUERY_PROJECT and BIGQUERY_LOCATION environment variables are required''),
        None, [])"
    by blast
  from startup_requires_project_and_location
         [where environ = demo_environ and C = demo and db = None
            and p = "''analytics''" and l = "''US''"] b c demo_filter
  have 2: "startup_event demo demo_environ None = (Inr (), Some demo_db, [demo_db])"
    by (simp add: demo_db_def)
  from a b c 1 2 show ?thesis by simp
qed

subsection \<open>The default API key\<close>

text \<open>
  C10. If \<^verbatim>\<open>MY_API_KEY\<close> is unset when the module is loaded, the configured key is
  the literal "your-secret-api-key", \<open>verify_token\<close> accepts a credential equal to that
  literal, and a request that carries it reaches the handler of its endpoint.
\<close>

theorem default_api_key_accepted:
  assumes "environ ''MY_API_KEY'' = None"
  shows "API_KEY environ = ''your-secret-api-key''
         \<and> verify_token (API_KEY environ) ''your-secret-api-key'' = Inr ''your-secret-api-key''
         \<and> serve C (API_KEY environ) db (Some ''your-secret-api-key'') req =
             (case endpoint C db req of (b, calls) \<Rightarrow> (Status200 b, calls))"
  using assms by (simp add: API_KEY_def verify_token_def serve_def HTTPBearer_found_def)

text \<open>The deployment above sets no key; the default key lists its tables.\<close>

theorem default_api_key_accepted_witness:
  "demo_environ ''MY_API_KEY'' = None
   \<and> API_KEY demo_environ = ''your-secret-api-key''
   \<and> serve demo (API_KEY demo_environ) (Some demo_db) (Some ''your-secret-api-key'')
        GET_tables =
       (Status200 (Tables (TablesResponse True
          [''sales.orders'', ''hr.employees'', ''ops.jobs''] 3 None)), [Call_list_tables])"
proof -
  have h: "demo_environ ''MY_API_KEY'' = None"
    by (simp add: demo_environ_def)
  have e: "endpoint demo (Some demo_db) GET_tables =
       (Tables (TablesResponse True
          [''sales.orders'', ''hr.employees'', ''ops.jobs''] 3 None), [Call_list_tables])"
    by (simp add: handler_defs demo_def)
  note t = default_api_key_accepted
             [where environ = demo_environ and C = demo and db = "Some demo_db"
                and req = GET_tables, OF h]
  from t have k: "API_KEY demo_environ = ''your-secret-api-key''"
    by (rule conjunct1)
  from t have "serve demo (API_KEY demo_environ) (Some demo_db)
                 (Some ''your-secret-api-key'') GET_tables =
               (case endpoint demo (Some demo_db) GET_tables of
                  (b, calls) \<Rightarrow> (Status200 b, calls))"
    by (elim conjE)
  with e have "serve demo (API_KEY demo_environ) (Some demo_db)
                 (Some ''your-secret-api-key'') GET_tables =
       (Status200 (Tables (TablesResponse True
          [''sales.orders'', ''hr.employees'', ''ops.jobs''] 3 None)), [Call_list_tables])"
    by simp
  with h k show ?thesis by (intro conjI)
qed

end
